theory Spec2Isabelle
  imports Complex_Main "HOL-Library.Char_ord" "HOL-Library.List_Lexorder"
begin

section \<open>The store (src/inventory/store.py)\<close>

text \<open>
  The table \<^verbatim>\<open>items\<close> of SCHEMA: one row per item, \<^verbatim>\<open>sku TEXT PRIMARY KEY\<close>,
  \<^verbatim>\<open>name TEXT NOT NULL\<close>, \<^verbatim>\<open>quantity INTEGER NOT NULL CHECK(quantity >= 0)\<close>,
  \<^verbatim>\<open>price REAL NOT NULL CHECK(price >= 0)\<close>, \<^verbatim>\<open>updated_at TEXT NOT NULL\<close>.
  A row is a record, the table is the list of its rows in insertion order. Python's
  unbounded \<^verbatim>\<open>int\<close> is \<open>int\<close>. An SQLite INTEGER is a signed 64-bit integer: binding
  an \<^verbatim>\<open>int\<close> outside that range as a parameter of \<^verbatim>\<open>conn.execute\<close> raises
  \<^verbatim>\<open>OverflowError\<close> before the statement runs (\<open>int64\<close> below), so a stored quantity
  is always in the range. A float is the real number it denotes (the store only compares
  prices with zero and stores them). The fields are typed as the signatures of the
  source type them, so the NOT NULL constraints hold by typing.
\<close>

record item =
  sku :: string
  name :: string
  quantity :: int
  price :: real
  updated_at :: string

type_synonym store = "item list"

text \<open>
  Every \<^verbatim>\<open>raise\<close> of store.py is a \<^verbatim>\<open>ValueError\<close> told apart by its message; a violated
  constraint of the schema is \<^verbatim>\<open>sqlite3.IntegrityError\<close> and an integer parameter out of
  range is \<^verbatim>\<open>OverflowError\<close>; neither is a \<^verbatim>\<open>ValueError\<close>.
  \<^item> \<open>SkuExists sku\<close>: \<^verbatim>\<open>ValueError("SKU '{sku}' already exists. Use update instead.")\<close>
    (the specification's DuplicateKeyError);
  \<^item> \<open>SkuNotFound sku\<close>: \<^verbatim>\<open>ValueError("SKU '{sku}' not found.")\<close> (NotFoundError);
  \<^item> \<open>CannotSubtract qty current\<close>:
    \<^verbatim>\<open>ValueError("Cannot subtract {qty}; only {current} in stock.")\<close> (InsufficientStockError);
  \<^item> \<open>QuantityNegative\<close>: \<^verbatim>\<open>ValueError("Quantity must be >= 0")\<close> (ValidationError);
  \<^item> \<open>PriceNegative\<close>: \<^verbatim>\<open>ValueError("Price must be >= 0")\<close> (ValidationError).
\<close>

datatype error =
    SkuExists string
  | SkuNotFound string
  | CannotSubtract int int
  | QuantityNegative
  | PriceNegative
  | IntegrityError
  | OverflowError

fun is_ValueError :: "error \<Rightarrow> bool" where
  "is_ValueError IntegrityError = False"
| "is_ValueError OverflowError = False"
| "is_ValueError _ = True"

subsection \<open>The SQL statements the methods execute\<close>

text \<open>\<^verbatim>\<open>SELECT ... FROM items WHERE sku=?\<close>: the rows with that key.\<close>

definition select_where_sku :: "store \<Rightarrow> string \<Rightarrow> item list" where
  "select_where_sku tbl k = filter (\<lambda>r. sku r = k) tbl"

text \<open>\<^verbatim>\<open>cur.fetchone()\<close>: the first row of the result, or \<^verbatim>\<open>None\<close>.\<close>

definition fetchone :: "'a list \<Rightarrow> 'a option" where
  "fetchone rows = (case rows of [] \<Rightarrow> None | r # _ \<Rightarrow> Some r)"

text \<open>The integers that can be bound as a parameter: the signed 64-bit range.\<close>

definition int64 :: "int \<Rightarrow> bool" where
  "int64 n = (- (2 ^ 63) \<le> n \<and> n < 2 ^ 63)"

text \<open>The two CHECK constraints of SCHEMA, on one row.\<close>

definition check_row :: "item \<Rightarrow> bool" where
  "check_row r = (quantity r \<ge> 0 \<and> price r \<ge> 0)"

text \<open>
  \<^verbatim>\<open>INSERT INTO items (sku, name, quantity, price, updated_at) VALUES (?,?,?,?,?)\<close>
  with the fields of \<open>r\<close> as parameters: binding the quantity raises when it is out of
  range; the statement is refused when the primary key is taken or a CHECK fails.
\<close>

definition insert_row :: "store \<Rightarrow> item \<Rightarrow> error + store" where
  "insert_row tbl r =
     (if \<not> int64 (quantity r) then Inl OverflowError
      else if select_where_sku tbl (sku r) \<noteq> [] then Inl IntegrityError
      else if \<not> check_row r then Inl IntegrityError
      else Inr (tbl @ [r]))"

text \<open>
  \<^verbatim>\<open>UPDATE items SET ... WHERE sku=?\<close>: \<open>f\<close> is the SET clause and \<open>qp\<close> the integer
  among its parameters, the new quantity, if it sets one. Binding that integer raises
  when it is out of range; the statement is refused when an updated row fails a CHECK.
\<close>

definition update_where_sku :: "store \<Rightarrow> string \<Rightarrow> int option \<Rightarrow> (item \<Rightarrow> item) \<Rightarrow> error + store" where
  "update_where_sku tbl k qp f =
     (if (case qp of None \<Rightarrow> False | Some v \<Rightarrow> \<not> int64 v) then Inl OverflowError
      else if list_all check_row (map f (select_where_sku tbl k))
      then Inr (map (\<lambda>r. if sku r = k then f r else r) tbl)
      else Inl IntegrityError)"

text \<open>\<^verbatim>\<open>DELETE FROM items WHERE sku=?\<close>.\<close>

definition delete_where_sku :: "store \<Rightarrow> string \<Rightarrow> store" where
  "delete_where_sku tbl k = filter (\<lambda>r. sku r \<noteq> k) tbl"

text \<open>
  \<^verbatim>\<open>with self._conn() as conn:\<close> runs its body as one transaction: the connection
  commits when the body ends normally and rolls back when it raises. The body takes the
  table and returns the error raised, or the table it leaves and the value returned.
\<close>

definition with_conn :: "(store \<Rightarrow> error + store \<times> 'a) \<Rightarrow> store \<Rightarrow> store \<times> (error + 'a)" where
  "with_conn body tbl =
     (case body tbl of
        Inl e \<Rightarrow> (tbl, Inl e)
      | Inr (tbl', a) \<Rightarrow> (tbl', Inr a))"

subsection \<open>The methods of Store\<close>

text \<open>
  Every method takes the table and returns the table it leaves with its outcome.
  \<open>now\<close> is the value of \<^verbatim>\<open>time.strftime('%Y-%m-%d %H:%M:%S')\<close> at the call.
\<close>

definition add_item :: "store \<Rightarrow> string \<Rightarrow> string \<Rightarrow> string \<Rightarrow> int \<Rightarrow> real \<Rightarrow> store \<times> (error + unit)" where
  "add_item tbl now k n q p =
     with_conn (\<lambda>conn.
       case fetchone (select_where_sku conn k) of
         Some _ \<Rightarrow> Inl (SkuExists k)
       | None \<Rightarrow>
           (case insert_row conn \<lparr>sku = k, name = n, quantity = q, price = p, updated_at = now\<rparr> of
              Inl e \<Rightarrow> Inl e
            | Inr conn' \<Rightarrow> Inr (conn', ()))) tbl"

definition subtract_quantity :: "store \<Rightarrow> string \<Rightarrow> string \<Rightarrow> int \<Rightarrow> store \<times> (error + int)" where
  "subtract_quantity tbl now k qty =
     with_conn (\<lambda>conn.
       case fetchone (select_where_sku conn k) of
         None \<Rightarrow> Inl (SkuNotFound k)
       | Some row \<Rightarrow>
           (let current = quantity row in
            if qty > current then Inl (CannotSubtract qty current)
            else
              (let new_q = current - qty in
               case update_where_sku conn k (Some new_q)
                      (\<lambda>r. r\<lparr>quantity := new_q, updated_at := now\<rparr>) of
                 Inl e \<Rightarrow> Inl e
               | Inr conn' \<Rightarrow> Inr (conn', new_q)))) tbl"

text \<open>
  \<open>set_fields\<close> is the SET clause \<open>update_item\<close> builds in \<^verbatim>\<open>fields\<close>/\<^verbatim>\<open>params\<close>: one
  assignment for each argument that is not \<^verbatim>\<open>None\<close>, then \<^verbatim>\<open>updated_at=?\<close>.
\<close>

definition set_fields :: "string option \<Rightarrow> int option \<Rightarrow> real option \<Rightarrow> string \<Rightarrow> item \<Rightarrow> item" where
  "set_fields n q p now r =
     (let r1 = (case n of None \<Rightarrow> r | Some v \<Rightarrow> r\<lparr>name := v\<rparr>);
          r2 = (case q of None \<Rightarrow> r1 | Some v \<Rightarrow> r1\<lparr>quantity := v\<rparr>);
          r3 = (case p of None \<Rightarrow> r2 | Some v \<Rightarrow> r2\<lparr>price := v\<rparr>)
      in r3\<lparr>updated_at := now\<rparr>)"

definition update_item :: "store \<Rightarrow> string \<Rightarrow> string \<Rightarrow> string option \<Rightarrow> int option \<Rightarrow> real option \<Rightarrow> store \<times> (error + unit)" where
  "update_item tbl now k n q p =
     (if n = None \<and> q = None \<and> p = None then (tbl, Inr ())
      else
        with_conn (\<lambda>conn.
          case fetchone (select_where_sku conn k) of
            None \<Rightarrow> Inl (SkuNotFound k)
          | Some _ \<Rightarrow>
              (if (case q of None \<Rightarrow> False | Some v \<Rightarrow> v < 0) then Inl QuantityNegative
               else if (case p of None \<Rightarrow> False | Some v \<Rightarrow> v < 0) then Inl PriceNegative
               else
                 (case update_where_sku conn k q (set_fields n q p now) of
                    Inl e \<Rightarrow> Inl e
                  | Inr conn' \<Rightarrow> Inr (conn', ())))) tbl)"

text \<open>
  \<open>add_or_update\<close>: \<^verbatim>\<open>try: add_item(...) except ValueError: update_item(...)\<close>; another
  exception of \<open>add_item\<close> (\<^verbatim>\<open>IntegrityError\<close>, \<^verbatim>\<open>OverflowError\<close>) propagates. \<open>now\<close> is the clock at the insertion, \<open>now'\<close> at
  the update.
\<close>

definition add_or_update :: "store \<Rightarrow> string \<Rightarrow> string \<Rightarrow> string \<Rightarrow> string \<Rightarrow> int \<Rightarrow> real \<Rightarrow> store \<times> (error + unit)" where
  "add_or_update tbl now now' k n q p =
     (case add_item tbl now k n q p of
        (tbl', Inr u) \<Rightarrow> (tbl', Inr u)
      | (tbl', Inl e) \<Rightarrow>
          (if is_ValueError e then update_item tbl' now' k (Some n) (Some q) (Some p)
           else (tbl', Inl e)))"

definition delete_item :: "store \<Rightarrow> string \<Rightarrow> store \<times> (error + unit)" where
  "delete_item tbl k =
     with_conn (\<lambda>conn.
       case fetchone (select_where_sku conn k) of
         None \<Rightarrow> Inl (SkuNotFound k)
       | Some _ \<Rightarrow> Inr (delete_where_sku conn k, ())) tbl"

text \<open>\<open>list_items\<close>: \<^verbatim>\<open>SELECT ... FROM items ORDER BY sku\<close>, every row as a dict.\<close>

definition list_items :: "store \<Rightarrow> item list" where
  "list_items tbl = sort_key sku tbl"

text \<open>\<open>get_item\<close>: the row of the key as a dict, or \<^verbatim>\<open>None\<close>.\<close>

definition get_item :: "store \<Rightarrow> string \<Rightarrow> item option" where
  "get_item tbl k = fetchone (select_where_sku tbl k)"

text \<open>
  A call of one of the five mutating methods, with its arguments and the clock values
  it reads; \<open>exec\<close> is the table after the call, whether it returned or raised, and
  \<open>run\<close> the table after a sequence of calls.
\<close>

datatype call =
    AddItem string string string int real
  | AddOrUpdate string string string string int real
  | SubtractQuantity string string int
  | UpdateItem string string "string option" "int option" "real option"
  | DeleteItem string

fun exec :: "store \<Rightarrow> call \<Rightarrow> store" where
  "exec tbl (AddItem now k n q p) = fst (add_item tbl now k n q p)"
| "exec tbl (AddOrUpdate now now' k n q p) = fst (add_or_update tbl now now' k n q p)"
| "exec tbl (SubtractQuantity now k qty) = fst (subtract_quantity tbl now k qty)"
| "exec tbl (UpdateItem now k n q p) = fst (update_item tbl now k n q p)"
| "exec tbl (DeleteItem k) = fst (delete_item tbl k)"

definition run :: "store \<Rightarrow> call list \<Rightarrow> store" where
  "run tbl cs = foldl exec tbl cs"

text \<open>
  A table of SCHEMA: the engine keeps the primary key unique and both CHECK
  constraints true of every stored row. The empty table is one, and every method
  keeps the property (\<open>run_schema_ok\<close> below).
\<close>

definition schema_ok :: "store \<Rightarrow> bool" where
  "schema_ok tbl = (distinct (map sku tbl) \<and> list_all check_row tbl)"


section \<open>The rule-based parser (src/inventory/agent.py)\<close>

text \<open>
  A Python \<^verbatim>\<open>str\<close> is a \<open>string\<close>, one \<open>char\<close> per character: the \<open>char\<close> is the code
  point of the character, so the model covers the text whose characters are below
  U+0100 (ASCII and Latin-1). The classes below are those of Python on that range.
\<close>

subsection \<open>Characters and the string methods\<close>

definition is_space :: "char \<Rightarrow> bool" where
  \<comment> \<open>\<^verbatim>\<open>str.isspace\<close> and the class \<^verbatim>\<open>\s\<close>: TAB, LF, VT, FF, CR, FS, GS, RS, US, space,
      NEL (U+0085) and the no-break space (U+00A0)\<close>
  "is_space c = ((CHR 0x09 \<le> c \<and> c \<le> CHR 0x0D) \<or> (CHR 0x1C \<le> c \<and> c \<le> CHR 0x20) \<or>
                 c = CHR 0x85 \<or> c = CHR 0xA0)"

definition is_digit :: "char \<Rightarrow> bool" where
  \<comment> \<open>the classes \<^verbatim>\<open>\d\<close> and \<^verbatim>\<open>[0-9]\<close>\<close>
  "is_digit c = (CHR ''0'' \<le> c \<and> c \<le> CHR ''9'')"

definition is_lower :: "char \<Rightarrow> bool" where
  \<comment> \<open>the class \<^verbatim>\<open>[a-z]\<close>\<close>
  "is_lower c = (CHR ''a'' \<le> c \<and> c \<le> CHR ''z'')"

definition is_upper :: "char \<Rightarrow> bool" where
  "is_upper c = (CHR ''A'' \<le> c \<and> c \<le> CHR ''Z'')"

definition is_latin1_alnum :: "char \<Rightarrow> bool" where
  \<comment> \<open>\<^verbatim>\<open>str.isalnum\<close> on U+0080 to U+00FF: the letters, the superscript digits and the
      fractions of Latin-1\<close>
  "is_latin1_alnum c =
     (c \<in> set [CHR 0xAA, CHR 0xB2, CHR 0xB3, CHR 0xB5, CHR 0xB9, CHR 0xBA, CHR 0xBC, CHR 0xBD, CHR 0xBE] \<or>
      (CHR 0xC0 \<le> c \<and> c \<le> CHR 0xD6) \<or> (CHR 0xD8 \<le> c \<and> c \<le> CHR 0xF6) \<or> CHR 0xF8 \<le> c)"

definition is_word :: "char \<Rightarrow> bool" where
  \<comment> \<open>the class \<^verbatim>\<open>\w\<close>, which decides the boundary \<^verbatim>\<open>\b\<close>: alphanumeric or underscore\<close>
  "is_word c = (is_lower c \<or> is_upper c \<or> is_digit c \<or> c = CHR ''_'' \<or> is_latin1_alnum c)"

definition is_token :: "char \<Rightarrow> bool" where
  \<comment> \<open>the class \<^verbatim>\<open>[a-z0-9-_]\<close>\<close>
  "is_token c = (is_lower c \<or> is_digit c \<or> c = CHR ''-'' \<or> c = CHR ''_'')"

definition ascii_lowercase :: string where
  "ascii_lowercase = ''abcdefghijklmnopqrstuvwxyz''"

definition ascii_uppercase :: string where
  "ascii_uppercase = ''ABCDEFGHIJKLMNOPQRSTUVWXYZ''"

text \<open>
  The capital letters of Latin-1, U+00C0 to U+00DE without the multiplication sign
  U+00D7, and their lower-case letters, U+00E0 to U+00FE without U+00F7, in the same
  order.
\<close>

definition latin1_uppercase :: string where
  "latin1_uppercase =
     [CHR 0xC0, CHR 0xC1, CHR 0xC2, CHR 0xC3, CHR 0xC4, CHR 0xC5, CHR 0xC6, CHR 0xC7,
      CHR 0xC8, CHR 0xC9, CHR 0xCA, CHR 0xCB, CHR 0xCC, CHR 0xCD, CHR 0xCE, CHR 0xCF,
      CHR 0xD0, CHR 0xD1, CHR 0xD2, CHR 0xD3, CHR 0xD4, CHR 0xD5, CHR 0xD6,
      CHR 0xD8, CHR 0xD9, CHR 0xDA, CHR 0xDB, CHR 0xDC, CHR 0xDD, CHR 0xDE]"

definition latin1_lowercase :: string where
  "latin1_lowercase =
     [CHR 0xE0, CHR 0xE1, CHR 0xE2, CHR 0xE3, CHR 0xE4, CHR 0xE5, CHR 0xE6, CHR 0xE7,
      CHR 0xE8, CHR 0xE9, CHR 0xEA, CHR 0xEB, CHR 0xEC, CHR 0xED, CHR 0xEE, CHR 0xEF,
      CHR 0xF0, CHR 0xF1, CHR 0xF2, CHR 0xF3, CHR 0xF4, CHR 0xF5, CHR 0xF6,
      CHR 0xF8, CHR 0xF9, CHR 0xFA, CHR 0xFB, CHR 0xFC, CHR 0xFD, CHR 0xFE]"

text \<open>\<^verbatim>\<open>str.lower\<close> on one character, which \<open>_rule_based_parse\<close> applies to the whole text.\<close>

definition lower_char :: "char \<Rightarrow> char" where
  "lower_char c =
     (case map_of (zip (ascii_uppercase @ latin1_uppercase) (ascii_lowercase @ latin1_lowercase)) c of
        Some d \<Rightarrow> d
      | None \<Rightarrow> c)"

text \<open>
  \<^verbatim>\<open>str.upper\<close> and \<^verbatim>\<open>str.title\<close> are only applied to what the classes \<^verbatim>\<open>[a-z]\<close> and
  \<^verbatim>\<open>[a-z0-9-_]\<close> matched and to \<^verbatim>\<open>"item"\<close>, so to ASCII; \<open>upper_char\<close>, \<open>title_from\<close>
  and the test \<open>is_upper\<close> it uses are those methods on ASCII.
\<close>

definition upper_char :: "char \<Rightarrow> char" where
  "upper_char c = (case map_of (zip ascii_lowercase ascii_uppercase) c of Some d \<Rightarrow> d | None \<Rightarrow> c)"

definition lower :: "string \<Rightarrow> string" where
  "lower s = map lower_char s"

definition upper :: "string \<Rightarrow> string" where
  "upper s = map upper_char s"

definition strip :: "string \<Rightarrow> string" where
  "strip s = rev (dropWhile is_space (rev (dropWhile is_space s)))"

text \<open>
  \<^verbatim>\<open>str.title\<close>: a cased character is upper-cased when the character before it is not
  cased and lower-cased when it is; \<open>p\<close> says whether the character before is cased.
\<close>

fun title_from :: "bool \<Rightarrow> string \<Rightarrow> string" where
  "title_from p [] = []"
| "title_from p (c # cs) =
     (if is_lower c then (if p then c else upper_char c) # title_from True cs
      else if is_upper c then (if p then lower_char c else c) # title_from True cs
      else c # title_from False cs)"

definition title :: "string \<Rightarrow> string" where
  "title s = title_from False s"

fun startswith :: "string \<Rightarrow> string \<Rightarrow> bool" where
  "startswith t [] = True"
| "startswith [] (k # ks) = False"
| "startswith (c # cs) (k # ks) = (c = k \<and> startswith cs ks)"

text \<open>\<open>contains t k\<close> is \<^verbatim>\<open>k in t\<close>.\<close>

fun contains :: "string \<Rightarrow> string \<Rightarrow> bool" where
  "contains [] k = (k = [])"
| "contains (c # cs) k = (startswith (c # cs) k \<or> contains cs k)"

subsection \<open>The exceptions of the parser\<close>

text \<open>
  What \<open>_rule_based_parse\<close> raises. \<^verbatim>\<open>AgentParseError\<close>, by its message:
  \<^item> \<open>SkuNotFoundAdd\<close>: \<^verbatim>\<open>"SKU not found; try '... with sku ABC123'"\<close>;
  \<^item> \<open>SkuNotFoundSubtract\<close>: \<^verbatim>\<open>"SKU not found for subtract."\<close>;
  \<^item> \<open>SkuNotFoundUpdate\<close>: \<^verbatim>\<open>"SKU not found for update."\<close>;
  \<^item> \<open>NothingToUpdate\<close>: \<^verbatim>\<open>"Nothing to update (provide name/quantity/price)"\<close>;
  \<^item> \<open>SkuNotFoundDelete\<close>: \<^verbatim>\<open>"SKU not found for delete."\<close>;
  \<^item> \<open>ActionNotRecognized\<close>: \<^verbatim>\<open>"Action not recognized. Try: add / subtract / update / delete."\<close>.

  And \<open>IntDigitsLimit\<close>, which is no \<^verbatim>\<open>AgentParseError\<close>: the \<^verbatim>\<open>ValueError\<close>
  \<^verbatim>\<open>"Exceeds the limit (4300 digits) for integer string conversion"\<close> that \<^verbatim>\<open>int\<close> raises
  on a longer string of digits; no function of agent.py catches it.
\<close>

datatype parse_exception =
    SkuNotFoundAdd
  | SkuNotFoundSubtract
  | SkuNotFoundUpdate
  | NothingToUpdate
  | SkuNotFoundDelete
  | ActionNotRecognized
  | IntDigitsLimit

subsection \<open>Conversions and truth values\<close>

text \<open>The number a string of decimal digits denotes.\<close>

definition int_of_digits :: "string \<Rightarrow> int" where
  "int_of_digits ds = foldl (\<lambda>a c. 10 * a + (of_char c - 48)) 0 ds"

text \<open>
  \<^verbatim>\<open>int(s)\<close> on a string of decimal digits: the number it denotes, and the
  \<^verbatim>\<open>ValueError\<close> of the conversion limit (\<^verbatim>\<open>sys.get_int_max_str_digits()\<close>, 4300 by
  default) when the string has more digits, leading zeros counted.
\<close>

definition int_max_str_digits :: nat where
  "int_max_str_digits = 4300"

definition py_int :: "string \<Rightarrow> parse_exception + int" where
  "py_int ds = (if length ds > int_max_str_digits then Inl IntDigitsLimit else Inr (int_of_digits ds))"

text \<open>
  \<^verbatim>\<open>float(s)\<close> on \<^verbatim>\<open>digits\<close> or \<^verbatim>\<open>digits.digits\<close> (\<open>fp\<close> is empty when there is no
  fraction): the number the decimal denotes. That is the float itself when a double
  represents the decimal exactly, as for an integer below \<open>2 ^ 53\<close>; \<^verbatim>\<open>float\<close> rounds
  every other decimal to the nearest double, which the model leaves out.
\<close>

definition float_of_decimal :: "string \<Rightarrow> string \<Rightarrow> real" where
  "float_of_decimal ip fp = of_int (int_of_digits ip) + of_int (int_of_digits fp) / 10 ^ length fp"

text \<open>
  Python's \<^verbatim>\<open>a or b\<close> is \<^verbatim>\<open>a\<close> when \<^verbatim>\<open>a\<close> is truthy and \<^verbatim>\<open>b\<close> otherwise. \<^verbatim>\<open>None\<close>, the
  empty string, \<^verbatim>\<open>0\<close> and \<^verbatim>\<open>0.0\<close> are falsy; \<open>truthy\<close> is the test on a value that is not
  \<^verbatim>\<open>None\<close> and \<open>truthy_opt\<close> the test on an optional value. \<open>or_else\<close> has an optional
  right operand, \<open>or_default\<close> a plain one.
\<close>

definition or_else :: "('a \<Rightarrow> bool) \<Rightarrow> 'a option \<Rightarrow> 'a option \<Rightarrow> 'a option" where
  "or_else truthy a b = (case a of None \<Rightarrow> b | Some v \<Rightarrow> if truthy v then Some v else b)"

definition or_default :: "('a \<Rightarrow> bool) \<Rightarrow> 'a option \<Rightarrow> 'a \<Rightarrow> 'a" where
  "or_default truthy a d = (case a of None \<Rightarrow> d | Some v \<Rightarrow> if truthy v then v else d)"

definition truthy_opt :: "('a \<Rightarrow> bool) \<Rightarrow> 'a option \<Rightarrow> bool" where
  "truthy_opt truthy a = (case a of None \<Rightarrow> False | Some v \<Rightarrow> truthy v)"

definition truthy_str :: "string \<Rightarrow> bool" where
  "truthy_str s = (s \<noteq> [])"

definition truthy_int :: "int \<Rightarrow> bool" where
  "truthy_int n = (n \<noteq> 0)"

definition truthy_float :: "real \<Rightarrow> bool" where
  "truthy_float x = (x \<noteq> 0)"

subsection \<open>The extraction primitives\<close>

text \<open>
  \<^verbatim>\<open>re.search\<close> tries the pattern at every start position from the left and returns the
  first match; \<open>m u\<close> is the group of a match of the pattern at the start of the
  suffix \<open>u\<close>, if there is one.
\<close>

fun re_search :: "(string \<Rightarrow> 'a option) \<Rightarrow> string \<Rightarrow> 'a option" where
  "re_search m [] = m []"
| "re_search m (c # cs) = (case m (c # cs) of Some g \<Rightarrow> Some g | None \<Rightarrow> re_search m cs)"

text \<open>
  \<^verbatim>\<open>key\s+([a-z0-9-_]+)\<close> at the start of \<open>u\<close>: the key, one or more whitespace
  characters, then the longest run of token characters, which must not be empty. No
  whitespace character is a token character, so giving whitespace back never helps.
\<close>

definition match_after :: "string \<Rightarrow> string \<Rightarrow> string option" where
  "match_after key u =
     (if startswith u key then
        (let r = drop (length key) u;
             tok = takeWhile is_token (dropWhile is_space r)
         in if takeWhile is_space r \<noteq> [] \<and> tok \<noteq> [] then Some tok else None)
      else None)"

definition find_after :: "string \<Rightarrow> string \<Rightarrow> string option" where
  "find_after t key = re_search (match_after key) t"

text \<open>
  \<^verbatim>\<open>\b(\d+)\b\<close> at the start of \<open>u\<close>, where \<open>prev\<close> is the character before \<open>u\<close>: the
  longest run of digits, not empty, with no word character before it and none after
  it. A shorter run would end before a digit, which is no boundary.
\<close>

definition match_int :: "char option \<Rightarrow> string \<Rightarrow> string option" where
  "match_int prev u =
     (let ds = takeWhile is_digit u in
      if (case prev of None \<Rightarrow> True | Some c \<Rightarrow> \<not> is_word c) \<and> ds \<noteq> [] \<and>
         (case dropWhile is_digit u of [] \<Rightarrow> True | c # _ \<Rightarrow> \<not> is_word c)
      then Some ds else None)"

fun search_int :: "char option \<Rightarrow> string \<Rightarrow> string option" where
  "search_int prev [] = None"
| "search_int prev (c # cs) =
     (case match_int prev (c # cs) of Some ds \<Rightarrow> Some ds | None \<Rightarrow> search_int (Some c) cs)"

text \<open>\<^verbatim>\<open>int(m.group(1)) if m else None\<close>, for the group \<open>m\<close> of a match if there is one.\<close>

definition int_of_group :: "string option \<Rightarrow> parse_exception + int option" where
  "int_of_group m =
     (case m of
        None \<Rightarrow> Inr None
      | Some ds \<Rightarrow> (case py_int ds of Inl e \<Rightarrow> Inl e | Inr n \<Rightarrow> Inr (Some n)))"

definition find_int :: "string \<Rightarrow> parse_exception + int option" where
  "find_int t = int_of_group (search_int None t)"

text \<open>
  \<^verbatim>\<open>key[^0-9]*(\d+)\<close> at the start of \<open>u\<close>: the key, every character up to the first
  digit, then the longest run of digits.
\<close>

definition match_int_after :: "string \<Rightarrow> string \<Rightarrow> string option" where
  "match_int_after key u =
     (if startswith u key then
        (let ds = takeWhile is_digit (dropWhile (\<lambda>c. \<not> is_digit c) (drop (length key) u))
         in if ds \<noteq> [] then Some ds else None)
      else None)"

definition find_int_after :: "string \<Rightarrow> string \<Rightarrow> parse_exception + int option" where
  "find_int_after t key = int_of_group (re_search (match_int_after key) t)"

text \<open>
  \<^verbatim>\<open>key[^0-9]*([0-9]+(?:\.[0-9]+)?)\<close> at the start of \<open>u\<close>: as before, and a fraction
  when a dot and at least one digit follow the digits.
\<close>

definition match_float_after :: "string \<Rightarrow> string \<Rightarrow> (string \<times> string) option" where
  "match_float_after key u =
     (if startswith u key then
        (let r = dropWhile (\<lambda>c. \<not> is_digit c) (drop (length key) u);
             ip = takeWhile is_digit r
         in if ip = [] then None
            else
              (case dropWhile is_digit r of
                 c # r' \<Rightarrow> if c = CHR ''.'' then Some (ip, takeWhile is_digit r') else Some (ip, [])
               | [] \<Rightarrow> Some (ip, [])))
      else None)"

definition find_float_after :: "string \<Rightarrow> string \<Rightarrow> real option" where
  "find_float_after t key =
     map_option (\<lambda>(ip, fp). float_of_decimal ip fp) (re_search (match_float_after key) t)"

text \<open>
  \<^verbatim>\<open>re.findall(r"[a-z]+", t)\<close>: the maximal runs of lower-case letters, from the left;
  \<open>w\<close> is the run being read.
\<close>

fun findall_lower :: "string \<Rightarrow> string \<Rightarrow> string list" where
  "findall_lower w [] = (if w = [] then [] else [w])"
| "findall_lower w (c # cs) =
     (if is_lower c then findall_lower (w @ [c]) cs
      else (if w = [] then [] else [w]) @ findall_lower [] cs)"

text \<open>
  \<^verbatim>\<open>max(words, key=len) if words else None\<close>: the first of the longest words, \<^verbatim>\<open>None\<close>
  when there is no word.
\<close>

fun max_by_len :: "string list \<Rightarrow> string option" where
  "max_by_len [] = None"
| "max_by_len (w # ws) = Some (foldl (\<lambda>b x. if length x > length b then x else b) w ws)"

definition find_name :: "string \<Rightarrow> string list \<Rightarrow> string option" where
  "find_name t exclude = max_by_len (filter (\<lambda>w. w \<notin> set exclude) (findall_lower [] t))"

subsection \<open>Actions and the parser\<close>

text \<open>
  The dict an action is: its \<^verbatim>\<open>"type"\<close> and, in the order of the constructor's
  arguments, \<^verbatim>\<open>"sku"\<close>, \<^verbatim>\<open>"name"\<close>, \<^verbatim>\<open>"quantity"\<close>, \<^verbatim>\<open>"price"\<close>; an optional argument is
  a key the dict may lack.
\<close>

datatype action =
    Add string string int real
  | Subtract string int
  | Update string "string option" "int option" "real option"
  | Delete string

fun action_type :: "action \<Rightarrow> string" where
  "action_type (Add _ _ _ _) = ''add''"
| "action_type (Subtract _ _) = ''subtract''"
| "action_type (Update _ _ _ _) = ''update''"
| "action_type (Delete _) = ''delete''"

text \<open>\<^verbatim>\<open>action.get("quantity")\<close>.\<close>

fun action_quantity :: "action \<Rightarrow> int option" where
  "action_quantity (Add _ _ q _) = Some q"
| "action_quantity (Subtract _ q) = Some q"
| "action_quantity (Update _ _ q _) = q"
| "action_quantity (Delete _) = None"

text \<open>\<^verbatim>\<open>t = text.lower().strip()\<close>.\<close>

definition normalise :: "string \<Rightarrow> string" where
  "normalise text = strip (lower text)"

text \<open>The conditions of the four \<^verbatim>\<open>if\<close> statements of \<open>_rule_based_parse\<close>, in their order.\<close>

definition is_add :: "string \<Rightarrow> bool" where
  "is_add t = (startswith t ''add'' \<or> contains t '' add '')"

definition is_subtract :: "string \<Rightarrow> bool" where
  "is_subtract t =
     (startswith t ''subtract'' \<or> startswith t ''minus'' \<or> contains t '' subtract '' \<or>
      contains t '' remove '')"

definition is_update :: "string \<Rightarrow> bool" where
  "is_update t = (startswith t ''update'' \<or> contains t '' update '' \<or> contains t '' change '')"

definition is_delete :: "string \<Rightarrow> bool" where
  "is_delete t =
     (startswith t ''delete'' \<or> contains t '' delete '' \<or> startswith t ''remove'' \<or>
      contains t '' remove sku'')"

text \<open>\<^verbatim>\<open>_find_after(t, "sku") or _find_after(t, "code")\<close>, which every branch evaluates.\<close>

definition find_sku :: "string \<Rightarrow> string option" where
  "find_sku t = or_else truthy_str (find_after t ''sku'') (find_after t ''code'')"

text \<open>
  \<open>_rule_based_parse\<close>. The statements of a branch run in the order of the source, so
  an exception of \<^verbatim>\<open>int\<close> in \<open>_find_int\<close> comes before the test of the sku in the add
  and subtract branches and after it in the update branch. In the update branch
  \<^verbatim>\<open>_find_int_after(t, "qty") or _find_int_after(t, "quantity")\<close> evaluates its right
  operand only when the left one is \<^verbatim>\<open>None\<close> or \<^verbatim>\<open>0\<close>.
\<close>

definition rule_based_parse :: "string \<Rightarrow> parse_exception + action" where
  "rule_based_parse text =
     (let t = normalise text in
      if is_add t then
        (case find_int t of
           Inl e \<Rightarrow> Inl e
         | Inr qo \<Rightarrow>
             (let q = or_default truthy_int qo 1;
                  s = find_sku t;
                  p = or_default truthy_float (find_float_after t ''price'') 0;
                  n = or_default truthy_str
                        (find_name t [''add'', ''with'', ''sku'', ''price'', ''update'', ''delete'', ''subtract''])
                        (or_default truthy_str s ''item'')
              in case s of
                   None \<Rightarrow> Inl SkuNotFoundAdd
                 | Some k \<Rightarrow> if \<not> truthy_str k then Inl SkuNotFoundAdd
                             else Inr (Add (upper k) (title n) q p)))
      else if is_subtract t then
        (case find_int t of
           Inl e \<Rightarrow> Inl e
         | Inr qo \<Rightarrow>
             (let q = or_default truthy_int qo 1;
                  s = find_sku t
              in case s of
                   None \<Rightarrow> Inl SkuNotFoundSubtract
                 | Some k \<Rightarrow> if \<not> truthy_str k then Inl SkuNotFoundSubtract
                             else Inr (Subtract (upper k) q)))
      else if is_update t then
        (case find_sku t of
           None \<Rightarrow> Inl SkuNotFoundUpdate
         | Some k \<Rightarrow>
             if \<not> truthy_str k then Inl SkuNotFoundUpdate
             else
               (case find_int_after t ''qty'' of
                  Inl e \<Rightarrow> Inl e
                | Inr a \<Rightarrow>
                    (case (if truthy_opt truthy_int a then Inr a
                           else find_int_after t ''quantity'') of
                       Inl e \<Rightarrow> Inl e
                     | Inr q \<Rightarrow>
                         (let p = find_float_after t ''price'';
                              nm = (case find_after t ''name'' of
                                      None \<Rightarrow> None
                                    | Some w \<Rightarrow> if truthy_str w then Some (title w) else None)
                          in if q = None \<and> p = None \<and> nm = None then Inl NothingToUpdate
                             else Inr (Update (upper k) nm q p)))))
      else if is_delete t then
        (case find_sku t of
           None \<Rightarrow> Inl SkuNotFoundDelete
         | Some k \<Rightarrow> if \<not> truthy_str k then Inl SkuNotFoundDelete
                     else Inr (Delete (upper k)))
      else Inl ActionNotRecognized)"

section \<open>Properties of the store\<close>

subsection \<open>Queries on a table\<close>

lemma fetchone_None_iff: "fetchone xs = None \<longleftrightarrow> xs = []"
  by (cases xs) (simp_all add: fetchone_def)

lemma get_item_sku: "get_item tbl k = Some r \<Longrightarrow> sku r = k"
proof -
  assume a: "get_item tbl k = Some r"
  then obtain rs where "select_where_sku tbl k = r # rs"
    by (auto simp: get_item_def fetchone_def split: list.splits)
  then have "r \<in> set (filter (\<lambda>r. sku r = k) tbl)"
    by (simp add: select_where_sku_def)
  then show ?thesis by simp
qed

lemma get_item_append:
  "get_item (tbl @ [r]) k = (case get_item tbl k of Some x \<Rightarrow> Some x | None \<Rightarrow> if sku r = k then Some r else None)"
  by (cases "filter (\<lambda>r. sku r = k) tbl") (simp_all add: get_item_def fetchone_def select_where_sku_def)

lemma select_map_update:
  assumes "\<And>r. sku (f r) = sku r"
  shows "select_where_sku (map (\<lambda>r. if sku r = k then f r else r) tbl) k' =
         map (\<lambda>r. if k' = k then f r else r) (select_where_sku tbl k')"
  using assms by (induction tbl) (auto simp: select_where_sku_def)

lemma get_item_map_update:
  assumes "\<And>r. sku (f r) = sku r"
  shows "get_item (map (\<lambda>r. if sku r = k then f r else r) tbl) k' =
         map_option (\<lambda>r. if k' = k then f r else r) (get_item tbl k')"
  unfolding get_item_def select_map_update[OF assms]
  by (cases "select_where_sku tbl k'") (simp_all add: fetchone_def)

subsection \<open>What the methods do when they succeed or fail\<close>

lemma add_item_fresh:
  assumes "get_item tbl k = None" "0 \<le> q" "q < 2 ^ 63" "0 \<le> p"
  shows "add_item tbl now k n q p =
           (tbl @ [\<lparr>sku = k, name = n, quantity = q, price = p, updated_at = now\<rparr>], Inr ())"
proof -
  have "select_where_sku tbl k = []"
    using assms(1) by (simp add: get_item_def fetchone_None_iff)
  with assms(2-4) show ?thesis
    by (simp add: add_item_def with_conn_def insert_row_def check_row_def int64_def fetchone_def)
qed

lemma subtract_quantity_insufficient:
  assumes "get_item tbl k = Some r" "qty > quantity r"
  shows "subtract_quantity tbl now k qty = (tbl, Inl (CannotSubtract qty (quantity r)))"
  using assms by (simp add: subtract_quantity_def with_conn_def get_item_def Let_def)

lemma update_where_sku_ok:
  assumes "\<And>r. r \<in> set tbl \<Longrightarrow> sku r = k \<Longrightarrow> check_row (f r)"
    and "\<And>v. qp = Some v \<Longrightarrow> int64 v"
  shows "update_where_sku tbl k qp f = Inr (map (\<lambda>r. if sku r = k then f r else r) tbl)"
  using assms
  by (auto simp: update_where_sku_def select_where_sku_def list_all_iff split: option.splits)

lemma update_where_sku_overflow:
  "\<not> int64 v \<Longrightarrow> update_where_sku tbl k (Some v) f = Inl OverflowError"
  by (simp add: update_where_sku_def)

lemma subtract_quantity_sufficient:
  assumes "get_item tbl k = Some r" "qty \<le> quantity r" "\<And>x. x \<in> set tbl \<Longrightarrow> 0 \<le> price x"
    and "quantity r - qty < 2 ^ 63"
  shows "subtract_quantity tbl now k qty =
           (map (\<lambda>x. if sku x = k then x\<lparr>quantity := quantity r - qty, updated_at := now\<rparr> else x) tbl,
            Inr (quantity r - qty))"
proof -
  have "update_where_sku tbl k (Some (quantity r - qty))
          (\<lambda>x. x\<lparr>quantity := quantity r - qty, updated_at := now\<rparr>) =
        Inr (map (\<lambda>x. if sku x = k then x\<lparr>quantity := quantity r - qty, updated_at := now\<rparr> else x) tbl)"
    using assms(2-4) by (intro update_where_sku_ok) (simp_all add: check_row_def int64_def)
  with assms(1,2) show ?thesis
    by (simp add: subtract_quantity_def with_conn_def get_item_def Let_def)
qed

lemma sku_set_fields: "sku (set_fields n q p now r) = sku r"
  by (simp add: set_fields_def split: option.splits)

lemma update_item_ok:
  assumes "get_item tbl k = Some r" "n \<noteq> None \<or> q \<noteq> None \<or> p \<noteq> None"
    "\<And>v. q = Some v \<Longrightarrow> 0 \<le> v" "\<And>v. p = Some v \<Longrightarrow> 0 \<le> v"
    "list_all check_row tbl" "\<And>v. q = Some v \<Longrightarrow> v < 2 ^ 63"
  shows "update_item tbl now k n q p =
           (map (\<lambda>x. if sku x = k then set_fields n q p now x else x) tbl, Inr ())"
proof -
  have "update_where_sku tbl k q (set_fields n q p now) =
        Inr (map (\<lambda>x. if sku x = k then set_fields n q p now x else x) tbl)"
    using assms(3-6)
    by (intro update_where_sku_ok)
       (auto simp: check_row_def set_fields_def list_all_iff int64_def split: option.splits)
  moreover have "\<not> (case q of None \<Rightarrow> False | Some v \<Rightarrow> v < 0)"
    using assms(3) by (auto split: option.splits)
  moreover have "\<not> (case p of None \<Rightarrow> False | Some v \<Rightarrow> v < 0)"
    using assms(4) by (auto split: option.splits)
  ultimately show ?thesis
    using assms(1,2) by (auto simp: update_item_def with_conn_def get_item_def)
qed

subsection \<open>Every method keeps the constraints of SCHEMA\<close>

lemma insert_row_schema_ok:
  assumes "schema_ok tbl" "insert_row tbl r = Inr tbl'"
  shows "schema_ok tbl'"
proof -
  from assms(2) have e: "select_where_sku tbl (sku r) = []" and c: "check_row r"
    and t: "tbl' = tbl @ [r]"
    by (auto simp: insert_row_def split: if_splits)
  from e have "sku r \<notin> sku ` set tbl"
    by (auto simp: select_where_sku_def filter_empty_conv)
  with assms(1) c t show ?thesis
    by (simp add: schema_ok_def)
qed

lemma update_where_sku_schema_ok:
  assumes "schema_ok tbl" "\<And>r. sku (f r) = sku r" "update_where_sku tbl k qp f = Inr tbl'"
  shows "schema_ok tbl'"
proof -
  from assms(3) have c: "list_all check_row (map f (select_where_sku tbl k))"
    and t: "tbl' = map (\<lambda>r. if sku r = k then f r else r) tbl"
    by (auto simp: update_where_sku_def split: if_splits)
  have "map sku tbl' = map sku tbl"
    unfolding t using assms(2) by (induction tbl) auto
  moreover have "list_all check_row tbl'"
    using assms(1) c unfolding t
    by (auto simp: schema_ok_def list_all_iff select_where_sku_def)
  ultimately show ?thesis
    using assms(1) by (simp add: schema_ok_def)
qed

lemma delete_where_sku_schema_ok:
  "schema_ok tbl \<Longrightarrow> schema_ok (delete_where_sku tbl k)"
  by (simp add: schema_ok_def delete_where_sku_def distinct_map_filter list_all_iff)

lemma add_item_schema_ok: "schema_ok tbl \<Longrightarrow> schema_ok (fst (add_item tbl now k n q p))"
  by (auto simp: add_item_def with_conn_def split: option.splits sum.splits
           dest: insert_row_schema_ok)

lemma subtract_quantity_schema_ok:
  "schema_ok tbl \<Longrightarrow> schema_ok (fst (subtract_quantity tbl now k qty))"
  by (auto simp: subtract_quantity_def with_conn_def Let_def split: option.splits sum.splits
           dest: update_where_sku_schema_ok[rotated 2])

lemma update_item_schema_ok:
  "schema_ok tbl \<Longrightarrow> schema_ok (fst (update_item tbl now k n q p))"
  by (auto simp: update_item_def with_conn_def sku_set_fields split: option.splits sum.splits
           dest: update_where_sku_schema_ok[rotated 2])

lemma delete_item_schema_ok: "schema_ok tbl \<Longrightarrow> schema_ok (fst (delete_item tbl k))"
  by (auto simp: delete_item_def with_conn_def delete_where_sku_schema_ok split: option.splits)

lemma add_or_update_schema_ok:
  assumes "schema_ok tbl"
  shows "schema_ok (fst (add_or_update tbl now now' k n q p))"
proof (cases "add_item tbl now k n q p")
  case (Pair tbl' res)
  then have ok: "schema_ok tbl'"
    using add_item_schema_ok[OF assms, of now k n q p] by simp
  show ?thesis
  proof (cases res)
    case (Inl e)
    with Pair ok show ?thesis
      by (simp add: add_or_update_def update_item_schema_ok)
  next
    case (Inr u)
    with Pair ok show ?thesis
      by (simp add: add_or_update_def)
  qed
qed

lemma exec_schema_ok: "schema_ok tbl \<Longrightarrow> schema_ok (exec tbl c)"
  by (cases c)
     (simp_all add: add_item_schema_ok add_or_update_schema_ok subtract_quantity_schema_ok
        update_item_schema_ok delete_item_schema_ok)

lemma run_schema_ok: "schema_ok tbl \<Longrightarrow> schema_ok (run tbl cs)"
  unfolding run_def by (induction cs arbitrary: tbl) (simp_all add: exec_schema_ok)

text \<open>
  The table with the single row of sku A1, used where a concrete table is needed.
\<close>

lemma apple_table:
  "schema_ok [\<lparr>sku = ''A1'', name = ''Apple'', quantity = 5, price = 10, updated_at = ''t0''\<rparr>]"
  "get_item [\<lparr>sku = ''A1'', name = ''Apple'', quantity = 5, price = 10, updated_at = ''t0''\<rparr>] ''A1'' =
        Some \<lparr>sku = ''A1'', name = ''Apple'', quantity = 5, price = 10, updated_at = ''t0''\<rparr>"
  by (simp_all add: schema_ok_def check_row_def get_item_def select_where_sku_def fetchone_def)

subsection \<open>Claims about the store\<close>

text \<open>
  Claim C1, as the code has it. For every sku that is not in the store, every name,
  every quantity from 0 to \<open>2 ^ 63 - 1\<close>, the range of an SQLite INTEGER, and every price
  that is not negative, \<open>add_item\<close> returns normally, \<open>get_item\<close> on the table it leaves
  returns the row with exactly that sku, name, quantity and price (and the clock value
  of the call as \<open>updated_at\<close>), and \<open>list_items\<close> holds that row.
\<close>

theorem add_item_then_get_item:
  assumes "get_item tbl k = None" and "0 \<le> q" and "q < 2 ^ 63" and "0 \<le> p"
  shows "snd (add_item tbl now k n q p) = Inr () \<and>
         get_item (fst (add_item tbl now k n q p)) k =
           Some \<lparr>sku = k, name = n, quantity = q, price = p, updated_at = now\<rparr> \<and>
         \<lparr>sku = k, name = n, quantity = q, price = p, updated_at = now\<rparr>
           \<in> set (list_items (fst (add_item tbl now k n q p)))"
  using assms by (simp add: add_item_fresh get_item_append list_items_def)

text \<open>
  The claim C1 as it is written admits every quantity that is not negative. At the
  quantity \<open>2 ^ 63\<close> the insertion raises \<^verbatim>\<open>OverflowError\<close>, nothing is stored and
  \<open>get_item\<close> returns \<^verbatim>\<open>None\<close>.
\<close>

theorem add_item_overflow_counterexample:
  "get_item [] ''B300'' = None \<and> (0 :: int) \<le> 2 ^ 63 \<and>
   add_item [] ''t1'' ''B300'' ''Bananas'' (2 ^ 63) 90 = ([], Inl OverflowError) \<and>
   get_item (fst (add_item [] ''t1'' ''B300'' ''Bananas'' (2 ^ 63) 90)) ''B300'' = None"
  by (simp add: add_item_def with_conn_def insert_row_def int64_def get_item_def
        select_where_sku_def fetchone_def)

text \<open>
  The amended C1 at the empty table, adding B300.
\<close>

theorem add_item_then_get_item_witness:
  "snd (add_item [] ''2026-01-01 00:00:00'' ''B300'' ''Bananas'' 20 90) = Inr () \<and>
   get_item (fst (add_item [] ''2026-01-01 00:00:00'' ''B300'' ''Bananas'' 20 90)) ''B300'' =
     Some \<lparr>sku = ''B300'', name = ''Bananas'', quantity = 20, price = 90,
           updated_at = ''2026-01-01 00:00:00''\<rparr> \<and>
   \<lparr>sku = ''B300'', name = ''Bananas'', quantity = 20, price = 90,
           updated_at = ''2026-01-01 00:00:00''\<rparr>
     \<in> set (list_items (fst (add_item [] ''2026-01-01 00:00:00'' ''B300'' ''Bananas'' 20 90)))"
  using add_item_then_get_item [of "[]" "''B300''" 20 90 "''2026-01-01 00:00:00''" "''Bananas''"]
  by (simp add: get_item_def select_where_sku_def fetchone_def)

text \<open>
  Claim C2. In every table reached from the empty table by a sequence of calls of
  \<open>add_item\<close>, \<open>add_or_update\<close>, \<open>subtract_quantity\<close>, \<open>update_item\<close> and \<open>delete_item\<close>,
  each of which may return or raise, every row has a quantity and a price that are not
  negative.
\<close>

theorem reachable_nonnegative:
  "\<forall>r \<in> set (run [] cs). quantity r \<ge> 0 \<and> price r \<ge> 0"
proof -
  have "schema_ok (run [] cs)"
    by (rule run_schema_ok) (simp add: schema_ok_def)
  then show ?thesis
    by (simp add: schema_ok_def list_all_iff check_row_def)
qed

text \<open>
  C2 on a sequence with three calls that raise (an excessive subtraction, a negative
  quantity in an update, a negative quantity in an insertion) and one that finds no row.
\<close>

theorem reachable_nonnegative_witness:
  "run [] [AddItem ''t1'' ''A1'' ''Apple'' 5 10, SubtractQuantity ''t2'' ''A1'' 7,
           SubtractQuantity ''t3'' ''A1'' 2, UpdateItem ''t4'' ''A1'' None (Some (- 1)) None,
           AddOrUpdate ''t5'' ''t6'' ''B2'' ''Pear'' (- 3) 1, DeleteItem ''C3''] =
     [\<lparr>sku = ''A1'', name = ''Apple'', quantity = 3, price = 10, updated_at = ''t3''\<rparr>] \<and>
   list_all (\<lambda>r. quantity r \<ge> 0 \<and> price r \<ge> 0)
     (run [] [AddItem ''t1'' ''A1'' ''Apple'' 5 10, SubtractQuantity ''t2'' ''A1'' 7,
           SubtractQuantity ''t3'' ''A1'' 2, UpdateItem ''t4'' ''A1'' None (Some (- 1)) None,
           AddOrUpdate ''t5'' ''t6'' ''B2'' ''Pear'' (- 3) 1, DeleteItem ''C3''])"
  using reachable_nonnegative [of "[AddItem ''t1'' ''A1'' ''Apple'' 5 10, SubtractQuantity ''t2'' ''A1'' 7,
           SubtractQuantity ''t3'' ''A1'' 2, UpdateItem ''t4'' ''A1'' None (Some (- 1)) None,
           AddOrUpdate ''t5'' ''t6'' ''B2'' ''Pear'' (- 3) 1, DeleteItem ''C3'']"]
  by (simp add: run_def add_item_def subtract_quantity_def update_item_def add_or_update_def
        delete_item_def with_conn_def fetchone_def select_where_sku_def insert_row_def
        update_where_sku_def check_row_def int64_def list_all_iff)

text \<open>
  Claim C3, as the code has it. For a sku in the store with quantity \<open>c\<close>: when
  \<open>qty > c\<close>, \<open>subtract_quantity\<close> raises the error of insufficient stock and leaves the
  table as it was; when \<open>qty \<le> c\<close> and \<open>c - qty\<close> is below \<open>2 ^ 63\<close>, so in the range of
  an SQLite INTEGER, it returns \<open>c - qty\<close> and the stored quantity is \<open>c - qty\<close>.
\<close>

theorem subtract_quantity_spec:
  assumes "schema_ok tbl" and "get_item tbl k = Some r"
  shows "(qty > quantity r \<longrightarrow>
            subtract_quantity tbl now k qty = (tbl, Inl (CannotSubtract qty (quantity r)))) \<and>
         (qty \<le> quantity r \<and> quantity r - qty < 2 ^ 63 \<longrightarrow>
            snd (subtract_quantity tbl now k qty) = Inr (quantity r - qty) \<and>
            map_option quantity (get_item (fst (subtract_quantity tbl now k qty)) k) =
              Some (quantity r - qty))"
proof (intro conjI impI)
  assume "qty > quantity r"
  with assms(2) show "subtract_quantity tbl now k qty = (tbl, Inl (CannotSubtract qty (quantity r)))"
    by (rule subtract_quantity_insufficient)
next
  assume le: "qty \<le> quantity r \<and> quantity r - qty < 2 ^ 63"
  have pr: "\<And>x. x \<in> set tbl \<Longrightarrow> 0 \<le> price x"
    using assms(1) by (simp add: schema_ok_def list_all_iff check_row_def)
  from le have le1: "qty \<le> quantity r" and le2: "quantity r - qty < 2 ^ 63" by simp_all
  note eq = subtract_quantity_sufficient[OF assms(2) le1 pr le2]
  show "snd (subtract_quantity tbl now k qty) = Inr (quantity r - qty)"
    by (simp add: eq)
  show "map_option quantity (get_item (fst (subtract_quantity tbl now k qty)) k) =
              Some (quantity r - qty)"
    using assms(2) by (simp add: eq get_item_map_update)
qed

text \<open>
  The claim C3 as it is written promises success for every \<open>qty \<le> c\<close>. On a stock of 5,
  subtracting \<open>- (2 ^ 63)\<close> raises \<^verbatim>\<open>OverflowError\<close> when the new quantity is bound, and
  the stored quantity stays 5.
\<close>

theorem subtract_quantity_overflow_counterexample:
  "get_item [\<lparr>sku = ''A1'', name = ''Apple'', quantity = 5, price = 10, updated_at = ''t0''\<rparr>] ''A1'' =
     Some \<lparr>sku = ''A1'', name = ''Apple'', quantity = 5, price = 10, updated_at = ''t0''\<rparr> \<and>
   - (2 ^ 63) \<le> (5 :: int) \<and>
   subtract_quantity [\<lparr>sku = ''A1'', name = ''Apple'', quantity = 5, price = 10, updated_at = ''t0''\<rparr>] ''t1'' ''A1'' (- (2 ^ 63)) =
     ([\<lparr>sku = ''A1'', name = ''Apple'', quantity = 5, price = 10, updated_at = ''t0''\<rparr>], Inl OverflowError)"
  by (simp add: subtract_quantity_def with_conn_def update_where_sku_def int64_def get_item_def
        select_where_sku_def fetchone_def)

text \<open>
  The amended C3 on a stock of 5: subtracting 6 raises, subtracting 2 leaves 3.
\<close>

theorem subtract_quantity_spec_witness:
  "subtract_quantity [\<lparr>sku = ''A1'', name = ''Apple'', quantity = 5, price = 10, updated_at = ''t0''\<rparr>]
     ''t1'' ''A1'' 6 =
     ([\<lparr>sku = ''A1'', name = ''Apple'', quantity = 5, price = 10, updated_at = ''t0''\<rparr>],
      Inl (CannotSubtract 6 5)) \<and>
   snd (subtract_quantity [\<lparr>sku = ''A1'', name = ''Apple'', quantity = 5, price = 10, updated_at = ''t0''\<rparr>]
     ''t1'' ''A1'' 2) = Inr 3 \<and>
   map_option quantity (get_item (fst (subtract_quantity
     [\<lparr>sku = ''A1'', name = ''Apple'', quantity = 5, price = 10, updated_at = ''t0''\<rparr>]
     ''t1'' ''A1'' 2)) ''A1'') = Some 3"
  using subtract_quantity_spec [OF apple_table, of 6 "''t1''"]
        subtract_quantity_spec [OF apple_table, of 2 "''t1''"]
  by simp

text \<open>
  Claim C4. For a sku already in the store, \<open>add_item\<close> raises the error of the
  duplicate key, whatever the name, quantity and price, and leaves the table, so the
  existing row with its \<open>updated_at\<close>, as it was.
\<close>

theorem add_item_existing:
  assumes "get_item tbl k = Some r"
  shows "add_item tbl now k n q p = (tbl, Inl (SkuExists k))"
  using assms by (simp add: add_item_def with_conn_def get_item_def)

text \<open>
  C4 on the table holding A1.
\<close>

theorem add_item_existing_witness:
  "add_item [\<lparr>sku = ''A1'', name = ''Apple'', quantity = 5, price = 10, updated_at = ''t0''\<rparr>]
     ''t1'' ''A1'' ''Pear'' 7 3 =
   ([\<lparr>sku = ''A1'', name = ''Apple'', quantity = 5, price = 10, updated_at = ''t0''\<rparr>],
    Inl (SkuExists ''A1''))"
proof -
  have "get_item [\<lparr>sku = ''A1'', name = ''Apple'', quantity = 5, price = 10, updated_at = ''t0''\<rparr>] ''A1'' =
        Some \<lparr>sku = ''A1'', name = ''Apple'', quantity = 5, price = 10, updated_at = ''t0''\<rparr>"
    by (simp add: get_item_def select_where_sku_def fetchone_def)
  then show ?thesis by (rule add_item_existing)
qed

text \<open>
  Claim C7, as the code has it. \<open>update_item\<close> with no name, quantity and price returns
  without touching the table. When the sku is in the store, at least one of the three
  is given, the given quantity is from 0 to \<open>2 ^ 63 - 1\<close> and the given price is not
  negative, it returns normally, the row of the sku takes the given values and the
  clock value of the call as \<open>updated_at\<close>, keeps its other fields, and the row of every
  other sku is as it was.
\<close>

theorem update_item_frame:
  "update_item tbl now k None None None = (tbl, Inr ()) \<and>
   (schema_ok tbl \<longrightarrow> get_item tbl k = Some r \<longrightarrow> (n \<noteq> None \<or> q \<noteq> None \<or> p \<noteq> None) \<longrightarrow>
    (\<forall>v. q = Some v \<longrightarrow> 0 \<le> v \<and> v < 2 ^ 63) \<longrightarrow> (\<forall>v. p = Some v \<longrightarrow> 0 \<le> v) \<longrightarrow>
      snd (update_item tbl now k n q p) = Inr () \<and>
      get_item (fst (update_item tbl now k n q p)) k =
        Some \<lparr>sku = k,
              name = (case n of None \<Rightarrow> name r | Some v \<Rightarrow> v),
              quantity = (case q of None \<Rightarrow> quantity r | Some v \<Rightarrow> v),
              price = (case p of None \<Rightarrow> price r | Some v \<Rightarrow> v),
              updated_at = now\<rparr> \<and>
      (\<forall>k'. k' \<noteq> k \<longrightarrow> get_item (fst (update_item tbl now k n q p)) k' = get_item tbl k'))"
proof (intro conjI impI)
  show "update_item tbl now k None None None = (tbl, Inr ())"
    by (simp add: update_item_def)
next
  assume ok: "schema_ok tbl" and g: "get_item tbl k = Some r"
    and some: "n \<noteq> None \<or> q \<noteq> None \<or> p \<noteq> None"
    and qv: "\<forall>v. q = Some v \<longrightarrow> 0 \<le> v \<and> v < 2 ^ 63" and pv: "\<forall>v. p = Some v \<longrightarrow> 0 \<le> v"
  have eq: "update_item tbl now k n q p =
           (map (\<lambda>x. if sku x = k then set_fields n q p now x else x) tbl, Inr ())"
    using g some qv pv ok by (intro update_item_ok) (simp_all add: schema_ok_def)
  show "snd (update_item tbl now k n q p) = Inr ()"
    by (simp add: eq)
  have "set_fields n q p now r =
        \<lparr>sku = k,
              name = (case n of None \<Rightarrow> name r | Some v \<Rightarrow> v),
              quantity = (case q of None \<Rightarrow> quantity r | Some v \<Rightarrow> v),
              price = (case p of None \<Rightarrow> price r | Some v \<Rightarrow> v),
              updated_at = now\<rparr>"
    using get_item_sku[OF g] by (cases r) (simp add: set_fields_def split: option.splits)
  then show "get_item (fst (update_item tbl now k n q p)) k =
        Some \<lparr>sku = k,
              name = (case n of None \<Rightarrow> name r | Some v \<Rightarrow> v),
              quantity = (case q of None \<Rightarrow> quantity r | Some v \<Rightarrow> v),
              price = (case p of None \<Rightarrow> price r | Some v \<Rightarrow> v),
              updated_at = now\<rparr>"
    using g by (simp add: eq get_item_map_update sku_set_fields)
  show "\<forall>k'. k' \<noteq> k \<longrightarrow> get_item (fst (update_item tbl now k n q p)) k' = get_item tbl k'"
    by (simp add: eq get_item_map_update sku_set_fields option.map_ident)
qed

text \<open>
  The claim C7 as it is written takes every quantity that is not negative for valid.
  Updating the quantity of A1 to \<open>2 ^ 63\<close> raises \<^verbatim>\<open>OverflowError\<close> and the row is as it
  was.
\<close>

theorem update_item_overflow_counterexample:
  "get_item [\<lparr>sku = ''A1'', name = ''Apple'', quantity = 5, price = 10, updated_at = ''t0''\<rparr>] ''A1'' =
     Some \<lparr>sku = ''A1'', name = ''Apple'', quantity = 5, price = 10, updated_at = ''t0''\<rparr> \<and>
   (0 :: int) \<le> 2 ^ 63 \<and>
   update_item [\<lparr>sku = ''A1'', name = ''Apple'', quantity = 5, price = 10, updated_at = ''t0''\<rparr>] ''t1'' ''A1'' None (Some (2 ^ 63)) None =
     ([\<lparr>sku = ''A1'', name = ''Apple'', quantity = 5, price = 10, updated_at = ''t0''\<rparr>], Inl OverflowError)"
  by (simp add: update_item_def with_conn_def update_where_sku_def int64_def get_item_def
        select_where_sku_def fetchone_def)

text \<open>
  The amended C7 on the table holding A1: the empty update, and an update of the
  quantity alone.
\<close>

theorem update_item_frame_witness:
  "update_item [\<lparr>sku = ''A1'', name = ''Apple'', quantity = 5, price = 10, updated_at = ''t0''\<rparr>]
     ''t1'' ''A1'' None None None =
     ([\<lparr>sku = ''A1'', name = ''Apple'', quantity = 5, price = 10, updated_at = ''t0''\<rparr>], Inr ()) \<and>
   snd (update_item [\<lparr>sku = ''A1'', name = ''Apple'', quantity = 5, price = 10, updated_at = ''t0''\<rparr>]
     ''t1'' ''A1'' None (Some 8) None) = Inr () \<and>
   get_item (fst (update_item
     [\<lparr>sku = ''A1'', name = ''Apple'', quantity = 5, price = 10, updated_at = ''t0''\<rparr>]
     ''t1'' ''A1'' None (Some 8) None)) ''A1'' =
     Some \<lparr>sku = ''A1'', name = ''Apple'', quantity = 8, price = 10, updated_at = ''t1''\<rparr>"
  using update_item_frame [of "[\<lparr>sku = ''A1'', name = ''Apple'', quantity = 5, price = 10, updated_at = ''t0''\<rparr>]"
          "''t1''" "''A1''" "\<lparr>sku = ''A1'', name = ''Apple'', quantity = 5, price = 10, updated_at = ''t0''\<rparr>"
          None "Some 8" None]
        apple_table
  by simp

text \<open>
  Claim C10, as the code has it. \<open>subtract_quantity\<close> does not ask for a positive
  \<open>qty\<close>: for a sku in the store with quantity \<open>c\<close> and every \<open>qty \<le> c\<close>, zero and negative
  numbers included, for which \<open>c - qty\<close> is below \<open>2 ^ 63\<close>, it returns \<open>c - qty\<close> and
  stores it, so a negative \<open>qty\<close> makes the stock strictly larger.
\<close>

theorem subtract_quantity_any_sign:
  assumes "schema_ok tbl" and "get_item tbl k = Some r" and "qty \<le> quantity r"
    and "quantity r - qty < 2 ^ 63"
  shows "snd (subtract_quantity tbl now k qty) = Inr (quantity r - qty) \<and>
         map_option quantity (get_item (fst (subtract_quantity tbl now k qty)) k) =
           Some (quantity r - qty) \<and>
         (qty < 0 \<longrightarrow> (\<exists>r'. get_item (fst (subtract_quantity tbl now k qty)) k = Some r' \<and>
                             quantity r' > quantity r))"
proof -
  have pr: "\<And>x. x \<in> set tbl \<Longrightarrow> 0 \<le> price x"
    using assms(1) by (simp add: schema_ok_def list_all_iff check_row_def)
  note eq = subtract_quantity_sufficient[OF assms(2,3) pr assms(4)]
  show ?thesis
    using assms(2) by (simp add: eq get_item_map_update)
qed

text \<open>
  The claim C10 as it is written promises success for every negative \<open>qty\<close>. On a stock
  of 0, subtracting \<open>- (2 ^ 63)\<close> raises \<^verbatim>\<open>OverflowError\<close> and the stock stays 0.
\<close>

theorem subtract_negative_overflow_counterexample:
  "get_item [\<lparr>sku = ''P7'', name = ''Pear'', quantity = 0, price = 2, updated_at = ''t0''\<rparr>] ''P7'' =
     Some \<lparr>sku = ''P7'', name = ''Pear'', quantity = 0, price = 2, updated_at = ''t0''\<rparr> \<and>
   - (2 ^ 63) \<le> (0 :: int) \<and>
   subtract_quantity [\<lparr>sku = ''P7'', name = ''Pear'', quantity = 0, price = 2, updated_at = ''t0''\<rparr>] ''t1'' ''P7'' (- (2 ^ 63)) = ([\<lparr>sku = ''P7'', name = ''Pear'', quantity = 0, price = 2, updated_at = ''t0''\<rparr>], Inl OverflowError) \<and>
   map_option quantity
     (get_item (fst (subtract_quantity [\<lparr>sku = ''P7'', name = ''Pear'', quantity = 0, price = 2, updated_at = ''t0''\<rparr>] ''t1'' ''P7'' (- (2 ^ 63)))) ''P7'') = Some 0"
  by (simp add: subtract_quantity_def with_conn_def update_where_sku_def int64_def get_item_def
        select_where_sku_def fetchone_def)

text \<open>
  The amended C10 on a stock of 5: subtracting \<open>- 4\<close> leaves 9, subtracting 0 leaves 5.
\<close>

theorem subtract_quantity_any_sign_witness:
  "snd (subtract_quantity [\<lparr>sku = ''A1'', name = ''Apple'', quantity = 5, price = 10, updated_at = ''t0''\<rparr>]
     ''t1'' ''A1'' (- 4)) = Inr 9 \<and>
   map_option quantity (get_item (fst (subtract_quantity
     [\<lparr>sku = ''A1'', name = ''Apple'', quantity = 5, price = 10, updated_at = ''t0''\<rparr>]
     ''t1'' ''A1'' (- 4))) ''A1'') = Some 9 \<and>
   snd (subtract_quantity [\<lparr>sku = ''A1'', name = ''Apple'', quantity = 5, price = 10, updated_at = ''t0''\<rparr>]
     ''t1'' ''A1'' 0) = Inr 5"
  using subtract_quantity_any_sign [OF apple_table, of "- 4" "''t1''"]
        subtract_quantity_any_sign [OF apple_table, of 0 "''t1''"]
  by simp

section \<open>Properties of the rule-based parser\<close>

subsection \<open>The sku token is never empty\<close>

lemma re_search_match_after_nonempty:
  "re_search (match_after key) t = Some k \<Longrightarrow> k \<noteq> []"
  by (induction t) (auto simp: match_after_def Let_def split: if_splits option.splits)

lemma find_after_nonempty: "find_after t key = Some k \<Longrightarrow> k \<noteq> []"
  unfolding find_after_def by (rule re_search_match_after_nonempty)

lemma find_sku_truthy: "find_sku t = Some k \<Longrightarrow> truthy_str k"
  by (auto simp: find_sku_def or_else_def truthy_str_def split: option.splits if_splits
           dest: find_after_nonempty)

subsection \<open>The parser, branch by branch\<close>

lemma parse_add:
  "is_add (normalise text) \<Longrightarrow>
   rule_based_parse text =
     (case find_int (normalise text) of
        Inl e \<Rightarrow> Inl e
      | Inr qo \<Rightarrow>
          (case find_sku (normalise text) of
             None \<Rightarrow> Inl SkuNotFoundAdd
           | Some k \<Rightarrow>
               Inr (Add (upper k)
                      (title (or_default truthy_str
                         (find_name (normalise text)
                            [''add'', ''with'', ''sku'', ''price'', ''update'', ''delete'', ''subtract''])
                         (or_default truthy_str (Some k) ''item'')))
                      (or_default truthy_int qo 1)
                      (or_default truthy_float (find_float_after (normalise text) ''price'') 0))))"
  by (auto simp: rule_based_parse_def Let_def split: option.splits sum.splits dest: find_sku_truthy)

lemma parse_subtract:
  "\<not> is_add (normalise text) \<Longrightarrow> is_subtract (normalise text) \<Longrightarrow>
   rule_based_parse text =
     (case find_int (normalise text) of
        Inl e \<Rightarrow> Inl e
      | Inr qo \<Rightarrow>
          (case find_sku (normalise text) of
             None \<Rightarrow> Inl SkuNotFoundSubtract
           | Some k \<Rightarrow> Inr (Subtract (upper k) (or_default truthy_int qo 1))))"
  by (auto simp: rule_based_parse_def Let_def split: option.splits sum.splits dest: find_sku_truthy)

lemma parse_update:
  "\<not> is_add (normalise text) \<Longrightarrow> \<not> is_subtract (normalise text) \<Longrightarrow> is_update (normalise text) \<Longrightarrow>
   rule_based_parse text =
     (case find_sku (normalise text) of
        None \<Rightarrow> Inl SkuNotFoundUpdate
      | Some k \<Rightarrow>
          (case find_int_after (normalise text) ''qty'' of
             Inl e \<Rightarrow> Inl e
           | Inr a \<Rightarrow>
               (case (if truthy_opt truthy_int a then Inr a
                      else find_int_after (normalise text) ''quantity'') of
                  Inl e \<Rightarrow> Inl e
                | Inr q \<Rightarrow>
                    (let p = find_float_after (normalise text) ''price'';
                         nm = map_option title (find_after (normalise text) ''name'')
                     in if q = None \<and> p = None \<and> nm = None then Inl NothingToUpdate
                        else Inr (Update (upper k) nm q p)))))"
proof -
  have nm: "(case find_after (normalise text) ''name'' of
               None \<Rightarrow> None
             | Some w \<Rightarrow> if truthy_str w then Some (title w) else None) =
            map_option title (find_after (normalise text) ''name'')"
    by (auto simp: truthy_str_def split: option.splits dest: find_after_nonempty)
  assume "\<not> is_add (normalise text)" "\<not> is_subtract (normalise text)" "is_update (normalise text)"
  then show ?thesis
    unfolding rule_based_parse_def Let_def nm
    by (auto split: option.splits dest: find_sku_truthy)
qed

lemma parse_delete:
  "\<not> is_add (normalise text) \<Longrightarrow> \<not> is_subtract (normalise text) \<Longrightarrow>
   \<not> is_update (normalise text) \<Longrightarrow> is_delete (normalise text) \<Longrightarrow>
   rule_based_parse text =
     (case find_sku (normalise text) of
        None \<Rightarrow> Inl SkuNotFoundDelete
      | Some k \<Rightarrow> Inr (Delete (upper k)))"
  by (auto simp: rule_based_parse_def Let_def split: option.splits dest: find_sku_truthy)

lemma parse_none:
  "\<not> is_add (normalise text) \<Longrightarrow> \<not> is_subtract (normalise text) \<Longrightarrow>
   \<not> is_update (normalise text) \<Longrightarrow> \<not> is_delete (normalise text) \<Longrightarrow>
   rule_based_parse text = Inl ActionNotRecognized"
  by (simp add: rule_based_parse_def Let_def)

subsection \<open>Claims about the parser\<close>

subsection \<open>Claims about the parser\<close>

text \<open>
  Claim C5, as the code has it. The type of every action the parser returns is that of
  the first keyword group its text matches, in the order add, subtract, update, delete.
  The verb remove is a subtract keyword where it stands between two spaces and a delete
  keyword where the text starts with it; no test looks for a quantity. A text that
  starts with remove and matches no add, subtract or update keyword gives the delete
  action of its sku token, with or without a quantity in the text.
\<close>

theorem keyword_precedence:
  "(\<forall>a. rule_based_parse text = Inr a \<longrightarrow>
      (is_add (normalise text) \<or> is_subtract (normalise text) \<or> is_update (normalise text) \<or>
       is_delete (normalise text)) \<and>
      action_type a =
        (if is_add (normalise text) then ''add''
         else if is_subtract (normalise text) then ''subtract''
         else if is_update (normalise text) then ''update''
         else ''delete'')) \<and>
   (contains (normalise text) '' remove '' \<longrightarrow> is_subtract (normalise text)) \<and>
   (startswith (normalise text) ''remove'' \<longrightarrow> is_delete (normalise text)) \<and>
   (startswith (normalise text) ''remove'' \<and> \<not> is_add (normalise text) \<and>
    \<not> is_subtract (normalise text) \<and> \<not> is_update (normalise text) \<longrightarrow>
      (\<forall>k. find_sku (normalise text) = Some k \<longrightarrow> rule_based_parse text = Inr (Delete (upper k))))"
proof (intro conjI allI impI)
  fix a assume r: "rule_based_parse text = Inr a"
  show "is_add (normalise text) \<or> is_subtract (normalise text) \<or> is_update (normalise text) \<or>
       is_delete (normalise text)"
    using r parse_none[of "text"] by auto
  show "action_type a =
        (if is_add (normalise text) then ''add''
         else if is_subtract (normalise text) then ''subtract''
         else if is_update (normalise text) then ''update''
         else ''delete'')"
  proof (cases "is_add (normalise text)")
    case True
    with r show ?thesis by (auto simp: parse_add split: option.splits sum.splits)
  next
    case na: False
    show ?thesis
    proof (cases "is_subtract (normalise text)")
      case True
      with r na show ?thesis by (auto simp: parse_subtract split: option.splits sum.splits)
    next
      case ns: False
      show ?thesis
      proof (cases "is_update (normalise text)")
        case True
        with r na ns show ?thesis
          by (auto simp: parse_update Let_def split: option.splits sum.splits if_splits)
      next
        case nu: False
        show ?thesis
        proof (cases "is_delete (normalise text)")
          case True
          with r na ns nu show ?thesis by (auto simp: parse_delete split: option.splits)
        next
          case False
          with r na ns nu show ?thesis by (simp add: parse_none)
        qed
      qed
    qed
  qed
next
  assume "contains (normalise text) '' remove ''"
  then show "is_subtract (normalise text)" by (simp add: is_subtract_def)
next
  assume "startswith (normalise text) ''remove''"
  then show "is_delete (normalise text)" by (simp add: is_delete_def)
next
  fix k
  assume h: "startswith (normalise text) ''remove'' \<and> \<not> is_add (normalise text) \<and>
    \<not> is_subtract (normalise text) \<and> \<not> is_update (normalise text)"
    and k: "find_sku (normalise text) = Some k"
  from h have "is_delete (normalise text)" by (simp add: is_delete_def)
  with h k show "rule_based_parse text = Inr (Delete (upper k))"
    by (simp add: parse_delete)
qed

text \<open>
  The claim C5 as it is written says that the text \<^verbatim>\<open>remove 3 sku B1\<close>, which holds the
  quantity 3, parses as a subtract action. It parses as the delete action of B1.
\<close>

theorem remove_with_quantity_counterexample:
  "find_int (normalise ''remove 3 sku B1'') = Inr (Some 3) \<and>
   rule_based_parse ''remove 3 sku B1'' = Inr (Delete ''B1'') \<and>
   action_type (Delete ''B1'') \<noteq> ''subtract''"
  by code_simp

text \<open>
  The amended C5 at \<^verbatim>\<open>remove 3 sku B1\<close> and at \<^verbatim>\<open>please remove 2 sku B1\<close>.
\<close>

theorem keyword_precedence_witness:
  "rule_based_parse ''remove 3 sku B1'' = Inr (Delete ''B1'') \<and>
   action_type (Delete ''B1'') = ''delete'' \<and>
   is_subtract (normalise ''please remove 2 sku B1'')"
proof -
  have n: "normalise ''remove 3 sku B1'' = ''remove 3 sku b1''" by code_simp
  have a: "\<not> is_add ''remove 3 sku b1''" by code_simp
  have s: "\<not> is_subtract ''remove 3 sku b1''" by code_simp
  have u: "\<not> is_update ''remove 3 sku b1''" by code_simp
  have d: "startswith ''remove 3 sku b1'' ''remove''" by code_simp
  have k: "find_sku ''remove 3 sku b1'' = Some ''b1''" by code_simp
  have up: "upper ''b1'' = ''B1''" by code_simp
  have c: "contains (normalise ''please remove 2 sku B1'') '' remove ''" by code_simp
  from keyword_precedence[of "''remove 3 sku B1''"] n a s u d k up
  have 1: "rule_based_parse ''remove 3 sku B1'' = Inr (Delete ''B1'')" by simp
  with keyword_precedence[of "''remove 3 sku B1''"] n a s u
  have 2: "action_type (Delete ''B1'') = ''delete''" by simp
  from keyword_precedence[of "''please remove 2 sku B1''"] c
  have 3: "is_subtract (normalise ''please remove 2 sku B1'')" by blast
  from 1 2 3 show ?thesis by blast
qed

text \<open>
  Claim C6. The parse of \<^verbatim>\<open>add 20 bananas with sku B300 price 90\<close> is the add action
  with sku B300, name Bananas, quantity 20 and price 90.0.
\<close>

theorem parse_add_bananas:
  "rule_based_parse ''add 20 bananas with sku B300 price 90'' = Inr (Add ''B300'' ''Bananas'' 20 90)"
  by code_simp

text \<open>
  Claim C8. A text that is classified as an update, in which a sku token is found and
  no integer after qty or quantity, no decimal after price and no word after name,
  raises the parse error that there is nothing to update; \<^verbatim>\<open>update sku B300\<close> does.
\<close>

theorem update_without_fields:
  "(\<not> is_add (normalise text) \<and> \<not> is_subtract (normalise text) \<and> is_update (normalise text) \<and>
    find_sku (normalise text) \<noteq> None \<and>
    find_int_after (normalise text) ''qty'' = Inr None \<and>
    find_int_after (normalise text) ''quantity'' = Inr None \<and>
    find_float_after (normalise text) ''price'' = None \<and>
    find_after (normalise text) ''name'' = None
      \<longrightarrow> rule_based_parse text = Inl NothingToUpdate) \<and>
   rule_based_parse ''update sku B300'' = Inl NothingToUpdate"
proof (intro conjI impI)
  assume "\<not> is_add (normalise text) \<and> \<not> is_subtract (normalise text) \<and> is_update (normalise text) \<and>
    find_sku (normalise text) \<noteq> None \<and>
    find_int_after (normalise text) ''qty'' = Inr None \<and>
    find_int_after (normalise text) ''quantity'' = Inr None \<and>
    find_float_after (normalise text) ''price'' = None \<and>
    find_after (normalise text) ''name'' = None"
  then show "rule_based_parse text = Inl NothingToUpdate"
    by (auto simp: parse_update truthy_opt_def)
next
  show "rule_based_parse ''update sku B300'' = Inl NothingToUpdate"
    by code_simp
qed

text \<open>
  C8 at a text that names its sku with the word code.
\<close>

theorem update_without_fields_witness:
  "find_sku (normalise ''Please UPDATE code x-9 now'') = Some ''x-9'' \<and>
   rule_based_parse ''Please UPDATE code x-9 now'' = Inl NothingToUpdate"
proof -
  have "\<not> is_add (normalise ''Please UPDATE code x-9 now'')"
       "\<not> is_subtract (normalise ''Please UPDATE code x-9 now'')"
       "is_update (normalise ''Please UPDATE code x-9 now'')"
       "find_sku (normalise ''Please UPDATE code x-9 now'') = Some ''x-9''"
       "find_int_after (normalise ''Please UPDATE code x-9 now'') ''qty'' = Inr None"
       "find_int_after (normalise ''Please UPDATE code x-9 now'') ''quantity'' = Inr None"
       "find_float_after (normalise ''Please UPDATE code x-9 now'') ''price'' = None"
       "find_after (normalise ''Please UPDATE code x-9 now'') ''name'' = None"
    by code_simp+
  with update_without_fields [of "''Please UPDATE code x-9 now''"] show ?thesis by simp
qed

text \<open>
  Claim C9, as the code has it. In an add-classified text whose first standalone
  integer is 0, every action returned is an add action with quantity 1, and one is
  returned when a sku token is found. In the update branch a zero that reaches the test
  \<^verbatim>\<open>q is not None\<close> is kept: an update-classified text with a sku token, no integer
  after qty and the integer 0 after quantity gives the update action with quantity 0,
  whatever it says of price and name.
\<close>

theorem zero_quantity_add_and_update:
  "(is_add (normalise text) \<and> find_int (normalise text) = Inr (Some 0) \<longrightarrow>
      (\<forall>a. rule_based_parse text = Inr a \<longrightarrow> action_type a = ''add'' \<and> action_quantity a = Some 1) \<and>
      (\<forall>k. find_sku (normalise text) = Some k \<longrightarrow>
           (\<exists>n p. rule_based_parse text = Inr (Add (upper k) n 1 p)))) \<and>
   (\<not> is_add (normalise text) \<and> \<not> is_subtract (normalise text) \<and> is_update (normalise text) \<and>
    find_int_after (normalise text) ''qty'' = Inr None \<and>
    find_int_after (normalise text) ''quantity'' = Inr (Some 0) \<longrightarrow>
      (\<forall>k. find_sku (normalise text) = Some k \<longrightarrow>
           rule_based_parse text =
             Inr (Update (upper k) (map_option title (find_after (normalise text) ''name''))
                    (Some 0) (find_float_after (normalise text) ''price''))))"
proof -
  have A: "action_type a = ''add'' \<and> action_quantity a = Some 1"
    if "is_add (normalise text) \<and> find_int (normalise text) = Inr (Some 0)"
      and "rule_based_parse text = Inr a" for a
    using that
    by (auto simp: parse_add or_default_def truthy_int_def split: option.splits)
  have B: "\<exists>n p. rule_based_parse text = Inr (Add (upper k) n 1 p)"
    if "is_add (normalise text) \<and> find_int (normalise text) = Inr (Some 0)"
      and "find_sku (normalise text) = Some k" for k
    using that by (simp add: parse_add or_default_def[of truthy_int] truthy_int_def)
  have C: "rule_based_parse text =
             Inr (Update (upper k) (map_option title (find_after (normalise text) ''name''))
                    (Some 0) (find_float_after (normalise text) ''price''))"
    if "\<not> is_add (normalise text) \<and> \<not> is_subtract (normalise text) \<and>
        is_update (normalise text) \<and> find_int_after (normalise text) ''qty'' = Inr None \<and>
        find_int_after (normalise text) ''quantity'' = Inr (Some 0)"
      and "find_sku (normalise text) = Some k" for k
    using that by (simp add: parse_update truthy_opt_def Let_def)
  from A B C show ?thesis by blast
qed

text \<open>
  The claim C9 as it is written says that an extracted zero counts as absent, that
  every update-classified text with \<^verbatim>\<open>qty 0\<close> gives an action without quantity, and that
  an update whose only field is a zero quantity raises. The update of
  \<^verbatim>\<open>update sku B1 quantity 0\<close> is returned with quantity 0, and with \<^verbatim>\<open>quantity 5\<close>
  after \<^verbatim>\<open>qty 0\<close> the action has quantity 5.
\<close>

theorem qty_zero_counterexample:
  "is_update (normalise ''update sku B1 quantity 0'') \<and>
   find_int_after (normalise ''update sku B1 quantity 0'') ''quantity'' = Inr (Some 0) \<and>
   rule_based_parse ''update sku B1 quantity 0'' = Inr (Update ''B1'' None (Some 0) None) \<and>
   find_int_after (normalise ''update sku B1 qty 0 quantity 5'') ''qty'' = Inr (Some 0) \<and>
   rule_based_parse ''update sku B1 qty 0 quantity 5'' = Inr (Update ''B1'' None (Some 5) None)"
  by code_simp

text \<open>
  The amended C9 at an add with quantity 0 and at an update with \<^verbatim>\<open>quantity 0\<close>.
\<close>

theorem zero_quantity_add_and_update_witness:
  "rule_based_parse ''add 0 pears sku p-1'' = Inr (Add ''P-1'' ''Pears'' 1 0) \<and>
   action_quantity (Add ''P-1'' ''Pears'' 1 0) = Some 1 \<and>
   rule_based_parse ''update sku B1 quantity 0'' = Inr (Update ''B1'' None (Some 0) None)"
proof -
  have a: "is_add (normalise ''add 0 pears sku p-1'')"
          "find_int (normalise ''add 0 pears sku p-1'') = Inr (Some 0)"
          "find_sku (normalise ''add 0 pears sku p-1'') = Some ''p-1''"
          "rule_based_parse ''add 0 pears sku p-1'' = Inr (Add ''P-1'' ''Pears'' 1 0)"
    by code_simp+
  have u: "\<not> is_add (normalise ''update sku B1 quantity 0'')"
          "\<not> is_subtract (normalise ''update sku B1 quantity 0'')"
          "is_update (normalise ''update sku B1 quantity 0'')"
          "find_int_after (normalise ''update sku B1 quantity 0'') ''qty'' = Inr None"
          "find_int_after (normalise ''update sku B1 quantity 0'') ''quantity'' = Inr (Some 0)"
          "find_sku (normalise ''update sku B1 quantity 0'') = Some ''b1''"
          "find_after (normalise ''update sku B1 quantity 0'') ''name'' = None"
          "find_float_after (normalise ''update sku B1 quantity 0'') ''price'' = None"
          "upper ''b1'' = ''B1''"
    by code_simp+
  from zero_quantity_add_and_update [of "''add 0 pears sku p-1''"] a
  have 1: "action_quantity (Add ''P-1'' ''Pears'' 1 0) = Some 1" by simp
  from zero_quantity_add_and_update [of "''update sku B1 quantity 0''"] u
  have 2: "rule_based_parse ''update sku B1 quantity 0'' = Inr (Update ''B1'' None (Some 0) None)"
    by simp
  from a(4) 1 2 show ?thesis by simp
qed

end
